theory Spec2Isabelle
  imports Main "HOL-Library.Signed_Division"
begin

section \<open>Selective Repeat sender and receiver of sr.c\<close>

text \<open>
  The embedding follows \<^verbatim>\<open>src/sr.c\<close>, the file the emulator is linked with; the
  files under \<^verbatim>\<open>src/unnamed\<close> are earlier drafts of the same functions.

  A C \<^verbatim>\<open>int\<close> is an \<^typ>\<open>int\<close>: signed overflow is undefined in C, the
  sequence numbers, indices, checksums and counters of a simulation run stay far
  inside the 32-bit range, and no property below depends on wrap-around. The
  operator \<^verbatim>\<open>%\<close> truncates towards zero and is \<open>smod\<close>.
  A \<^verbatim>\<open>char\<close> is the \<^typ>\<open>int\<close> that \<^verbatim>\<open>(int)\<close> converts it to, so
  \<^verbatim>\<open>char payload[20]\<close> is a list of 20 integers. The arrays \<^verbatim>\<open>buffer\<close> and
  \<^verbatim>\<open>buffer_b\<close> are lists of \<^verbatim>\<open>WINDOWSIZE\<close> packets; an access outside
  \<^verbatim>\<open>[0, WINDOWSIZE)\<close> is undefined behaviour in C and the error \<open>OutOfBounds\<close>
  here. The calls into the emulator (\<^verbatim>\<open>tolayer3\<close>, \<^verbatim>\<open>tolayer5\<close>,
  \<^verbatim>\<open>starttimer\<close>, \<^verbatim>\<open>stoptimer\<close>) are recorded, in order, as a list of events
  returned beside the new state. Tracing with \<^verbatim>\<open>printf\<close> is left out.
\<close>

subsection \<open>Constants\<close>

definition RTT :: int where
  "RTT = 16"

definition WINDOWSIZE :: int where
  "WINDOWSIZE = 6"

definition SEQSPACE :: int where
  "SEQSPACE = 7"

definition NOTINUSE :: int where
  "NOTINUSE = - 1"

subsection \<open>Packets, messages and the emulator interface\<close>

text \<open>\<^verbatim>\<open>struct pkt\<close> and \<^verbatim>\<open>struct msg\<close> of the emulator header.\<close>

record pkt =
  seqnum :: int
  acknum :: int
  checksum :: int
  payload :: "int list"

record msg =
  data :: "int list"

datatype entity = A | B

datatype event =
    tolayer3 entity pkt
  | tolayer5 entity "int list"
  | starttimer entity int
  | stoptimer entity

datatype error = OutOfBounds

text \<open>The checksum loop runs over the 20 bytes of the payload.\<close>

definition ComputeChecksum :: "pkt \<Rightarrow> int" where
  "ComputeChecksum packet =
     fold (\<lambda>c checksum. checksum + c) (take 20 (payload packet))
       (seqnum packet + acknum packet)"

text \<open>\<^verbatim>\<open>IsCorrupted\<close> returns \<open>-1\<close> when the checksum matches and \<open>0\<close> otherwise.\<close>

definition IsCorrupted :: "pkt \<Rightarrow> int" where
  "IsCorrupted packet =
     (if checksum packet = ComputeChecksum packet then - 1 else 0)"

subsection \<open>State\<close>

text \<open>
  All file-scope variables of \<^verbatim>\<open>sr.c\<close> and the counters of the emulator that it
  updates. \<^verbatim>\<open>static int windowfirst\<close> is declared in the sender section and again in
  the receiver section of the same file: both declarations name one object, so
  there is one field for it.
\<close>

record sr_state =
  buffer :: "pkt list"
  windowfirst :: int
  windowlast :: int
  windowcount :: int
  A_nextseqnum :: int
  expectedseqnum :: int
  B_nextseqnum :: int
  buffer_b :: "pkt list"
  receivelast :: int
  window_full :: int
  total_ACKs_received :: int
  new_ACKs :: int
  packets_resent :: int
  packets_received :: int

text \<open>Objects with static storage start zeroed.\<close>

definition zero_pkt :: pkt where
  "zero_pkt = \<lparr>seqnum = 0, acknum = 0, checksum = 0, payload = replicate 20 0\<rparr>"

definition static_init :: sr_state where
  "static_init =
     \<lparr>buffer = replicate (nat WINDOWSIZE) zero_pkt,
      windowfirst = 0, windowlast = 0, windowcount = 0, A_nextseqnum = 0,
      expectedseqnum = 0, B_nextseqnum = 0,
      buffer_b = replicate (nat WINDOWSIZE) zero_pkt,
      receivelast = 0,
      window_full = 0, total_ACKs_received = 0, new_ACKs = 0,
      packets_resent = 0, packets_received = 0\<rparr>"

text \<open>
  The window test that \<^verbatim>\<open>A_output\<close>, \<^verbatim>\<open>A_input\<close> and \<^verbatim>\<open>B_input\<close> each write
  inline.
\<close>

definition in_window :: "int \<Rightarrow> int \<Rightarrow> int \<Rightarrow> bool" where
  "in_window seqfirst seqlast x \<longleftrightarrow>
     (seqfirst \<le> seqlast \<and> (x \<ge> seqfirst \<and> x \<le> seqlast)) \<or>
     (seqfirst > seqlast \<and> (x \<ge> seqfirst \<or> x \<le> seqlast))"

text \<open>
  A packet under construction: its checksum is computed from the other fields
  once they are set.
\<close>

definition make_pkt :: "int \<Rightarrow> int \<Rightarrow> int list \<Rightarrow> pkt" where
  "make_pkt sq ak pl =
     (let sendpkt = \<lparr>seqnum = sq, acknum = ak, checksum = 0, payload = pl\<rparr>
      in sendpkt\<lparr>checksum := ComputeChecksum sendpkt\<rparr>)"

subsection \<open>Sender\<close>

definition A_output :: "sr_state \<Rightarrow> msg \<Rightarrow> error + sr_state \<times> event list" where
  "A_output s message =
     (let seqfirst = windowfirst s;
          seqlast = (windowfirst s + WINDOWSIZE - 1) smod SEQSPACE
      in if in_window seqfirst seqlast (A_nextseqnum s) then
           let sendpkt = make_pkt (A_nextseqnum s) NOTINUSE (take 20 (data message));
               buf_index = (if A_nextseqnum s \<ge> windowfirst s
                            then A_nextseqnum s - seqfirst
                            else WINDOWSIZE - seqfirst + A_nextseqnum s)
           in if 0 \<le> buf_index \<and> buf_index < WINDOWSIZE then
                let s1 = s\<lparr>buffer := (buffer s)[nat buf_index := sendpkt],
                           windowcount := windowcount s + 1\<rparr>
                in Inr (s1\<lparr>A_nextseqnum := (A_nextseqnum s + 1) smod SEQSPACE\<rparr>,
                        tolayer3 A sendpkt #
                        (if windowcount s1 = 1 then [starttimer A RTT] else []))
              else Inl OutOfBounds
         else Inr (s\<lparr>window_full := window_full s + 1\<rparr>, []))"

text \<open>The scan that counts the acknowledged slots from slot 0 up to the first gap.\<close>

definition slide_count :: "pkt list \<Rightarrow> nat" where
  "slide_count buf =
     length (takeWhile (\<lambda>p. acknum p \<noteq> NOTINUSE) (take (nat WINDOWSIZE) buf))"

text \<open>The two loops after the scan: shift left in place, then clear the tail.\<close>

definition shift_buffer :: "nat \<Rightarrow> pkt list \<Rightarrow> pkt list" where
  "shift_buffer slide buf =
     fold (\<lambda>i b. b[i := b ! (i + slide)]) [0 ..< nat WINDOWSIZE - slide] buf"

definition clear_buffer :: "nat \<Rightarrow> pkt list \<Rightarrow> pkt list" where
  "clear_buffer slide buf =
     fold (\<lambda>i b. b[i := (b ! i)\<lparr>acknum := NOTINUSE, payload := replicate 20 0\<rparr>])
       [nat WINDOWSIZE - slide ..< nat WINDOWSIZE] buf"

text \<open>The block of \<^verbatim>\<open>A_input\<close> that records an acknowledgement in its slot.\<close>

definition mark_acked :: "sr_state \<Rightarrow> pkt \<Rightarrow> nat \<Rightarrow> sr_state" where
  "mark_acked s packet index =
     (if acknum (buffer s ! index) = NOTINUSE
      then s\<lparr>buffer := (buffer s)[index := (buffer s ! index)\<lparr>acknum := acknum packet\<rparr>],
             windowcount := windowcount s - 1,
             new_ACKs := new_ACKs s + 1\<rparr>
      else s)"

text \<open>The block of \<^verbatim>\<open>A_input\<close> that slides the window and handles the timer.\<close>

definition slide_window :: "sr_state \<Rightarrow> sr_state \<times> event list" where
  "slide_window s =
     (let slide = slide_count (buffer s)
      in if slide > 0 then
           let s' = s\<lparr>windowfirst := (windowfirst s + int slide) smod SEQSPACE,
                      buffer := clear_buffer slide (shift_buffer slide (buffer s))\<rparr>
           in (s', stoptimer A # (if windowcount s' > 0 then [starttimer A RTT] else []))
         else (s, []))"

definition A_input :: "sr_state \<Rightarrow> pkt \<Rightarrow> error + sr_state \<times> event list" where
  "A_input s packet =
     (let seqfirst = windowfirst s;
          seqlast = (windowfirst s + WINDOWSIZE - 1) smod SEQSPACE
      in if IsCorrupted packet = 0 then
           let s1 = s\<lparr>total_ACKs_received := total_ACKs_received s + 1\<rparr>
           in if in_window seqfirst seqlast (acknum packet) then
                let index = (if acknum packet \<ge> seqfirst
                             then acknum packet - seqfirst
                             else WINDOWSIZE - (seqfirst - acknum packet))
                in if 0 \<le> index \<and> index < WINDOWSIZE
                   then Inr (slide_window (mark_acked s1 packet (nat index)))
                   else Inl OutOfBounds
              else Inr (s1, [])
         else Inr (s, []))"

definition A_timerinterrupt :: "sr_state \<Rightarrow> error + sr_state \<times> event list" where
  "A_timerinterrupt s =
     (if windowcount s > 0 then
        Inr (s\<lparr>packets_resent := packets_resent s + 1\<rparr>,
             [tolayer3 A (buffer s ! 0), starttimer A RTT])
      else Inr (s, []))"

definition A_init :: "sr_state \<Rightarrow> sr_state" where
  "A_init s = s\<lparr>A_nextseqnum := 0, windowfirst := 0, windowlast := - 1, windowcount := 0\<rparr>"

subsection \<open>Receiver\<close>

text \<open>
  \<^verbatim>\<open>strcmp(a, b) != 0\<close> on two character arrays: the comparison stops at the first
  difference or at a common NUL; running off the end of either array is an
  out-of-bounds read.
\<close>

fun strcmp_ne :: "int list \<Rightarrow> int list \<Rightarrow> error + bool" where
  "strcmp_ne (x # xs) (y # ys) =
     (if x \<noteq> y then Inr True else if x = 0 then Inr False else strcmp_ne xs ys)"
| "strcmp_ne _ _ = Inl OutOfBounds"

text \<open>The test of the receiver's scan; the string literal \<^verbatim>\<open>""\<close> is the array \<open>[0]\<close>.\<close>

definition occupied :: "pkt \<Rightarrow> bool" where
  "occupied p \<longleftrightarrow> acknum p \<ge> 0 \<and> strcmp_ne (payload p) [0] = Inr True"

definition pck_count :: "pkt list \<Rightarrow> nat" where
  "pck_count buf = length (takeWhile occupied (take (nat WINDOWSIZE) buf))"

definition shift_buffer_b :: "nat \<Rightarrow> int \<Rightarrow> pkt list \<Rightarrow> error + pkt list" where
  "shift_buffer_b pckcount rl buf =
     fold (\<lambda>i r. case r of
                   Inl e \<Rightarrow> Inl e
                 | Inr b \<Rightarrow>
                     if int i + int pckcount \<le> rl + 1 then
                       (if int i + int pckcount < WINDOWSIZE
                        then Inr (b[i := b ! (i + pckcount)])
                        else Inl OutOfBounds)
                     else Inr b)
       [0 ..< nat WINDOWSIZE] (Inr buf)"

definition B_input :: "sr_state \<Rightarrow> pkt \<Rightarrow> error + sr_state \<times> event list" where
  "B_input s packet =
     (if IsCorrupted packet = 0 \<and> seqnum packet = expectedseqnum s then
        let s1 = s\<lparr>packets_received := packets_received s + 1\<rparr>;
            deliver = tolayer5 B (payload packet);
            sendpkt = make_pkt NOTINUSE (expectedseqnum s1) (replicate 20 48);
            ack = tolayer3 B sendpkt;
            seqfirst = windowfirst s1;
            seqlast = (windowfirst s1 + WINDOWSIZE - 1) smod SEQSPACE
        in if in_window seqfirst seqlast (seqnum packet) then
             let index = (if seqnum packet \<ge> seqfirst
                          then seqnum packet - seqfirst
                          else WINDOWSIZE - seqfirst + seqnum packet);
                 s2 = s1\<lparr>receivelast := (if receivelast s1 > index
                                          then receivelast s1 else index)\<rparr>
             in if 0 \<le> index \<and> index < WINDOWSIZE then
                  (case strcmp_ne (payload (buffer_b s2 ! nat index)) (payload packet) of
                     Inl e \<Rightarrow> Inl e
                   | Inr False \<Rightarrow> Inr (s2, [deliver, ack])
                   | Inr True \<Rightarrow>
                       let packet1 = packet\<lparr>acknum := seqnum packet\<rparr>;
                           s3 = s2\<lparr>buffer_b := (buffer_b s2)[nat index := packet1]\<rparr>
                       in if seqnum packet1 = seqfirst then
                            let pckcount = pck_count (buffer_b s3);
                                s4 = s3\<lparr>windowfirst :=
                                          (windowfirst s3 + int pckcount) smod SEQSPACE\<rparr>
                            in (case shift_buffer_b pckcount (receivelast s4) (buffer_b s4) of
                                  Inl e \<Rightarrow> Inl e
                                | Inr b \<Rightarrow>
                                    Inr (s4\<lparr>buffer_b := b\<rparr>,
                                         [deliver, ack, tolayer5 B (payload packet1)]))
                          else Inr (s3, [deliver, ack, tolayer5 B (payload packet1)]))
                else Inl OutOfBounds
           else Inr (s1, [deliver, ack])
      else Inr (s, []))"

definition B_init :: "sr_state \<Rightarrow> sr_state" where
  "B_init s = s\<lparr>expectedseqnum := 0, B_nextseqnum := 1\<rparr>"

text \<open>The state in which the emulator makes its first call into the protocol.\<close>

definition init_state :: sr_state where
  "init_state = B_init (A_init static_init)"

subsection \<open>Runs and observations\<close>

text \<open>
  The emulator calls the protocol one event at a time. A run applies a list of
  calls in order and collects the events; an error ends it.
\<close>

datatype call =
    Call_A_output msg
  | Call_A_input pkt
  | Call_A_timerinterrupt
  | Call_B_input pkt

fun step :: "sr_state \<Rightarrow> call \<Rightarrow> error + sr_state \<times> event list" where
  "step s (Call_A_output message) = A_output s message"
| "step s (Call_A_input packet) = A_input s packet"
| "step s Call_A_timerinterrupt = A_timerinterrupt s"
| "step s (Call_B_input packet) = B_input s packet"

fun run :: "sr_state \<Rightarrow> call list \<Rightarrow> error + sr_state \<times> event list" where
  "run s [] = Inr (s, [])"
| "run s (c # cs) =
     (case step s c of
        Inl e \<Rightarrow> Inl e
      | Inr (s', evs) \<Rightarrow>
          (case run s' cs of
             Inl e \<Rightarrow> Inl e
           | Inr (s'', evs') \<Rightarrow> Inr (s'', evs @ evs')))"

definition state_of :: "error + sr_state \<times> event list \<Rightarrow> sr_state option" where
  "state_of r = (case r of Inl e \<Rightarrow> None | Inr (s, evs) \<Rightarrow> Some s)"

definition events_of :: "error + sr_state \<times> event list \<Rightarrow> event list option" where
  "events_of r = (case r of Inl e \<Rightarrow> None | Inr (s, evs) \<Rightarrow> Some evs)"



text \<open>The payloads handed to layer 5 and the packets handed to layer 3, in order.\<close>

fun delivered :: "event list \<Rightarrow> int list list" where
  "delivered [] = []"
| "delivered (tolayer5 e x # evs) = x # delivered evs"
| "delivered (_ # evs) = delivered evs"

fun sent :: "event list \<Rightarrow> pkt list" where
  "sent [] = []"
| "sent (tolayer3 e p # evs) = p # sent evs"
| "sent (_ # evs) = sent evs"

subsection \<open>Inputs and states used below\<close>

text \<open>Two application messages: twenty letters a, twenty letters b.\<close>

definition msg_a :: msg where
  "msg_a = \<lparr>data = replicate 20 97\<rparr>"

definition msg_b :: msg where
  "msg_b = \<lparr>data = replicate 20 98\<rparr>"

text \<open>
  The data packet that \<^verbatim>\<open>A_output\<close> builds from \<open>msg_a\<close> with sequence number 0,
  and the same packet after the channel has overwritten its first payload byte
  with the letter Z.
\<close>

definition data_pkt :: pkt where
  "data_pkt = make_pkt 0 NOTINUSE (replicate 20 97)"

definition corrupted_data_pkt :: pkt where
  "corrupted_data_pkt = data_pkt\<lparr>payload := 90 # replicate 19 97\<rparr>"

text \<open>The data packet that \<^verbatim>\<open>A_output\<close> builds from \<open>msg_b\<close> with sequence number 1.\<close>

definition data_pkt_1 :: pkt where
  "data_pkt_1 = make_pkt 1 NOTINUSE (replicate 20 98)"

text \<open>The acknowledgement the receiver builds for a sequence number, intact and damaged.\<close>

definition ack_pkt :: "int \<Rightarrow> pkt" where
  "ack_pkt n = make_pkt NOTINUSE n (replicate 20 48)"

definition corrupted_ack_pkt :: "int \<Rightarrow> pkt" where
  "corrupted_ack_pkt n = (ack_pkt n)\<lparr>payload := 90 # replicate 19 48\<rparr>"

text \<open>The state after the first message has been sent from the initial state.\<close>

definition one_outstanding :: sr_state where
  "one_outstanding =
     init_state\<lparr>buffer := (buffer init_state)[0 := data_pkt],
                windowcount := 1, A_nextseqnum := 1\<rparr>"

text \<open>The state after \<^verbatim>\<open>A_input\<close> has then handled \<open>corrupted_ack_pkt 0\<close>.\<close>

definition after_first_ack :: sr_state where
  "after_first_ack =
     one_outstanding\<lparr>
       buffer := data_pkt\<lparr>acknum := NOTINUSE, payload := replicate 20 0\<rparr> #
                 replicate 5 (zero_pkt\<lparr>acknum := NOTINUSE\<rparr>),
       windowfirst := 6, windowcount := 0,
       total_ACKs_received := 1, new_ACKs := 1\<rparr>"

text \<open>The test the scan of \<^verbatim>\<open>A_input\<close> makes on slot 0, the slot of the window base.\<close>

definition base_acked :: "sr_state \<Rightarrow> bool" where
  "base_acked s \<longleftrightarrow> acknum (buffer s ! 0) \<noteq> NOTINUSE"

section \<open>Properties\<close>

subsection \<open>Auxiliary facts\<close>

lemma fold_add_sum_list: "fold (\<lambda>c checksum. checksum + c) xs (a::int) = a + sum_list xs"
  by (induction xs arbitrary: a) simp_all

lemma ComputeChecksum_sum:
  "ComputeChecksum p = seqnum p + acknum p + sum_list (take 20 (payload p))"
  by (simp add: ComputeChecksum_def fold_add_sum_list)

lemma make_pkt_checksum: "checksum (make_pkt sq ak pl) = ComputeChecksum (make_pkt sq ak pl)"
  by (simp add: make_pkt_def ComputeChecksum_def)

lemma sum_list_take_update:
  fixes xs :: "int list"
  assumes "i < length xs" "i < n"
  shows "sum_list (take n (xs[i := v])) = sum_list (take n xs) - xs ! i + v"
  using assms
proof (induction xs arbitrary: i n)
  case Nil
  then show ?case by simp
next
  case (Cons x xs)
  then show ?case by (cases i; cases n) simp_all
qed

text \<open>
  The callers test \<^verbatim>\<open>!IsCorrupted(packet)\<close>, that is \<open>IsCorrupted packet = 0\<close>:
  the branch they take on it is the one for a checksum that does not match.
\<close>

lemma IsCorrupted_zero_iff: "IsCorrupted p = 0 \<longleftrightarrow> checksum p \<noteq> ComputeChecksum p"
  by (simp add: IsCorrupted_def)

lemma A_output_sends:
  assumes "A_output s message = Inr (s', evs)" and "tolayer3 e q \<in> set evs"
  shows "q = make_pkt (A_nextseqnum s) NOTINUSE (take 20 (data message))"
proof (cases "in_window (windowfirst s)
                ((windowfirst s + WINDOWSIZE - 1) smod SEQSPACE) (A_nextseqnum s)")
  case False
  with assms(1) have "evs = []" by (simp add: A_output_def)
  with assms(2) show ?thesis by simp
next
  case True
  with assms(1) have "set evs \<subseteq>
      {tolayer3 A (make_pkt (A_nextseqnum s) NOTINUSE (take 20 (data message))),
       starttimer A RTT}"
    by (fastforce simp: A_output_def Let_def split: if_splits)
  with assms(2) show ?thesis by auto
qed

lemma B_input_sends:
  assumes "events_of (B_input s packet) = Some evs" and "tolayer3 e q \<in> set evs"
  shows "q = make_pkt NOTINUSE (expectedseqnum s) (replicate 20 48)"
proof -
  let ?a = "tolayer3 B (make_pkt NOTINUSE (expectedseqnum s) (replicate 20 48))"
  from assms(1) have "evs = [] \<or> (\<exists>x. evs = [tolayer5 B x, ?a]) \<or>
      (\<exists>x y. evs = [tolayer5 B x, ?a, tolayer5 B y])"
    by (auto simp: events_of_def B_input_def Let_def
        split: if_splits sum.splits bool.splits)
  with assms(2) show ?thesis by auto
qed



text \<open>
  For a base and a sequence number in \<open>[0, SEQSPACE)\<close>, the inline window test is
  membership in the cyclic range of \<open>WINDOWSIZE\<close> numbers that starts at the base.
\<close>

lemma in_window_cyclic:
  assumes "0 \<le> f" "f < SEQSPACE" "0 \<le> x" "x < SEQSPACE"
  shows "in_window f ((f + WINDOWSIZE - 1) smod SEQSPACE) x \<longleftrightarrow>
         (x - f) mod SEQSPACE < WINDOWSIZE"
proof -
  have "(f + WINDOWSIZE - 1) smod SEQSPACE = (f + WINDOWSIZE - 1) mod SEQSPACE"
    using assms by (intro smod_mod_positive) (simp_all add: WINDOWSIZE_def SEQSPACE_def)
  then have l: "(f + WINDOWSIZE - 1) smod SEQSPACE = (if f < 2 then f + 5 else f - 2)"
    using assms unfolding WINDOWSIZE_def SEQSPACE_def by (simp split: if_splits; presburger)
  have r: "(x - f) mod SEQSPACE = (if f \<le> x then x - f else x - f + 7)"
    using assms unfolding SEQSPACE_def by (simp split: if_splits; presburger)
  show ?thesis
    unfolding l r in_window_def using assms
    by (auto simp: WINDOWSIZE_def SEQSPACE_def)
qed





text \<open>The sample states are the ones the code reaches.\<close>

lemma first_send:
  "A_output init_state msg_a = Inr (one_outstanding, [tolayer3 A data_pkt, starttimer A RTT])"
  by code_simp


subsection \<open>Window-full rejection\<close>

text \<open>
  C6. When \<^verbatim>\<open>A_output\<close> finds \<^verbatim>\<open>A_nextseqnum\<close> outside the sender window, it only
  increments \<^verbatim>\<open>window_full\<close>: every other variable keeps its value and nothing is
  sent to the channel or to the timer. The hypothesis is the test as \<^verbatim>\<open>A_output\<close>
  writes it; by \<open>in_window_cyclic\<close> it is membership in the cyclic window
  whenever base and sequence number are in \<open>[0, SEQSPACE)\<close>.
\<close>

theorem A_output_window_full:
  assumes "\<not> in_window (windowfirst s)
             ((windowfirst s + WINDOWSIZE - 1) smod SEQSPACE) (A_nextseqnum s)"
  shows "A_output s message = Inr (s\<lparr>window_full := window_full s + 1\<rparr>, [])"
  using assms by (simp add: A_output_def)

theorem A_output_window_full_witness:
  "\<not> in_window (windowfirst (init_state\<lparr>A_nextseqnum := 6, windowcount := 6\<rparr>))
       ((windowfirst (init_state\<lparr>A_nextseqnum := 6, windowcount := 6\<rparr>) + WINDOWSIZE - 1)
          smod SEQSPACE)
       (A_nextseqnum (init_state\<lparr>A_nextseqnum := 6, windowcount := 6\<rparr>)) \<and>
   A_output (init_state\<lparr>A_nextseqnum := 6, windowcount := 6\<rparr>) msg_a =
     Inr (init_state\<lparr>A_nextseqnum := 6, windowcount := 6, window_full := 1\<rparr>, [])"
proof -
  let ?s = "init_state\<lparr>A_nextseqnum := 6, windowcount := 6\<rparr>"
  have h: "\<not> in_window (windowfirst ?s)
             ((windowfirst ?s + WINDOWSIZE - 1) smod SEQSPACE) (A_nextseqnum ?s)"
    by (simp add: in_window_def init_state_def B_init_def A_init_def static_init_def
        WINDOWSIZE_def SEQSPACE_def)
  have w: "window_full ?s = 0"
    by (simp add: init_state_def B_init_def A_init_def static_init_def)
  from A_output_window_full [OF h, of msg_a] h w
  show ?thesis by simp
qed

subsection \<open>Timer interrupt\<close>

text \<open>
  C10. When the timer goes off while \<^verbatim>\<open>windowcount\<close> is zero,
  \<^verbatim>\<open>A_timerinterrupt\<close> does nothing: no packet is sent, \<^verbatim>\<open>packets_resent\<close> keeps
  its value and the timer is not started again.
\<close>

theorem A_timerinterrupt_idle:
  assumes "windowcount s = 0"
  shows "A_timerinterrupt s = Inr (s, [])"
  using assms by (simp add: A_timerinterrupt_def)

theorem A_timerinterrupt_idle_witness:
  "windowcount after_first_ack = 0 \<and> A_timerinterrupt after_first_ack = Inr (after_first_ack, [])"
proof -
  have h: "windowcount after_first_ack = 0"
    by (simp add: after_first_ack_def)
  from A_timerinterrupt_idle [OF h] h show ?thesis by simp
qed

text \<open>
  While \<^verbatim>\<open>windowcount\<close> is positive the interrupt sends slot 0 of the buffer,
  whichever packet that slot holds, counts one resend and starts the timer.
\<close>

lemma A_timerinterrupt_sends_slot_0:
  assumes "0 < windowcount s"
  shows "A_timerinterrupt s =
           Inr (s\<lparr>packets_resent := packets_resent s + 1\<rparr>,
                [tolayer3 A (buffer s ! 0), starttimer A RTT])"
  using assms by (simp add: A_timerinterrupt_def)

text \<open>
  C5 does not hold of \<^verbatim>\<open>A_timerinterrupt\<close>: the packet it resends, slot 0, need
  not be the oldest unacknowledged one. In the first run the receiver handles a
  damaged copy of packet 0 and moves \<^verbatim>\<open>windowfirst\<close>, the variable it shares with
  the sender, to 1; \<^verbatim>\<open>A_output\<close> then stores packet 1 in slot 0, over packet 0. No
  acknowledgement has reached the sender and two packets are outstanding, yet the
  timeout resends packet 1. In the second run \<^verbatim>\<open>A_input\<close> has slid the window
  to base 6 and cleared the buffer; packet 1 is stored in slot 1 and is the only
  packet outstanding, yet the timeout sends the cleared slot 0, a packet with
  sequence number 0 and an empty payload. (The resend and the restart are also
  not unconditional: the body is guarded by \<^verbatim>\<open>windowcount > 0\<close>.)
\<close>

theorem timeout_resends_wrong_packet:
  "map_option (events_of \<circ> A_timerinterrupt) (state_of (run init_state
      [Call_A_output msg_a, Call_B_input corrupted_data_pkt, Call_A_output msg_b])) =
     Some (Some [tolayer3 A data_pkt_1, starttimer A RTT]) \<and>
   map_option total_ACKs_received (state_of (run init_state
      [Call_A_output msg_a, Call_B_input corrupted_data_pkt, Call_A_output msg_b])) = Some 0 \<and>
   map_option windowcount (state_of (run init_state
      [Call_A_output msg_a, Call_B_input corrupted_data_pkt, Call_A_output msg_b])) = Some 2 \<and>
   seqnum data_pkt = 0 \<and> seqnum data_pkt_1 = 1 \<and>
   map_option (events_of \<circ> A_timerinterrupt) (state_of (run init_state
      [Call_A_output msg_a, Call_A_input (corrupted_ack_pkt 0), Call_A_output msg_b])) =
     Some (Some [tolayer3 A (data_pkt\<lparr>payload := replicate 20 0\<rparr>), starttimer A RTT]) \<and>
   map_option buffer (state_of (run init_state
      [Call_A_output msg_a, Call_A_input (corrupted_ack_pkt 0), Call_A_output msg_b])) =
     Some (data_pkt\<lparr>payload := replicate 20 0\<rparr> # data_pkt_1 #
           replicate 4 (zero_pkt\<lparr>acknum := NOTINUSE\<rparr>)) \<and>
   map_option windowcount (state_of (run init_state
      [Call_A_output msg_a, Call_A_input (corrupted_ack_pkt 0), Call_A_output msg_b])) = Some 1"
  by code_simp

subsection \<open>Timer discipline\<close>



subsection \<open>Checksum\<close>

text \<open>
  C9. \<^verbatim>\<open>ComputeChecksum\<close> is the sum of \<^verbatim>\<open>seqnum\<close>, \<^verbatim>\<open>acknum\<close> and the 20
  payload bytes. Every packet that \<^verbatim>\<open>A_output\<close> or \<^verbatim>\<open>B_input\<close> hands to layer 3
  carries the checksum of its own fields, so \<^verbatim>\<open>IsCorrupted\<close> returns \<open>-1\<close> on it.
  Changing \<^verbatim>\<open>seqnum\<close>, \<^verbatim>\<open>acknum\<close> or one payload byte of a packet with a matching
  checksum to a different value makes the checksum differ from the recomputation,
  so \<^verbatim>\<open>IsCorrupted\<close> returns \<open>0\<close>.
\<close>

theorem checksum_detects_single_change:
  "ComputeChecksum p = seqnum p + acknum p + sum_list (take 20 (payload p)) \<and>
   (A_output s message = Inr (s', evs) \<longrightarrow> tolayer3 e q \<in> set evs \<longrightarrow>
      checksum q = ComputeChecksum q \<and> IsCorrupted q = - 1) \<and>
   (events_of (B_input t packet) = Some evt \<longrightarrow> tolayer3 e' q' \<in> set evt \<longrightarrow>
      checksum q' = ComputeChecksum q' \<and> IsCorrupted q' = - 1) \<and>
   (checksum p = ComputeChecksum p \<longrightarrow> v \<noteq> seqnum p \<longrightarrow>
      checksum (p\<lparr>seqnum := v\<rparr>) \<noteq> ComputeChecksum (p\<lparr>seqnum := v\<rparr>) \<and>
      IsCorrupted (p\<lparr>seqnum := v\<rparr>) = 0) \<and>
   (checksum p = ComputeChecksum p \<longrightarrow> w \<noteq> acknum p \<longrightarrow>
      checksum (p\<lparr>acknum := w\<rparr>) \<noteq> ComputeChecksum (p\<lparr>acknum := w\<rparr>) \<and>
      IsCorrupted (p\<lparr>acknum := w\<rparr>) = 0) \<and>
   (checksum p = ComputeChecksum p \<longrightarrow> i < 20 \<longrightarrow> i < length (payload p) \<longrightarrow>
      c \<noteq> payload p ! i \<longrightarrow>
      checksum (p\<lparr>payload := (payload p)[i := c]\<rparr>) \<noteq>
        ComputeChecksum (p\<lparr>payload := (payload p)[i := c]\<rparr>) \<and>
      IsCorrupted (p\<lparr>payload := (payload p)[i := c]\<rparr>) = 0)"
proof (intro conjI impI)
  show "ComputeChecksum p = seqnum p + acknum p + sum_list (take 20 (payload p))"
    by (rule ComputeChecksum_sum)
next
  assume "A_output s message = Inr (s', evs)" and "tolayer3 e q \<in> set evs"
  then have q: "q = make_pkt (A_nextseqnum s) NOTINUSE (take 20 (data message))"
    by (rule A_output_sends)
  show "checksum q = ComputeChecksum q" unfolding q by (rule make_pkt_checksum)
  then show "IsCorrupted q = - 1" by (simp add: IsCorrupted_def)
next
  assume "events_of (B_input t packet) = Some evt" and "tolayer3 e' q' \<in> set evt"
  then have q: "q' = make_pkt NOTINUSE (expectedseqnum t) (replicate 20 48)"
    by (rule B_input_sends)
  show "checksum q' = ComputeChecksum q'" unfolding q by (rule make_pkt_checksum)
  then show "IsCorrupted q' = - 1" by (simp add: IsCorrupted_def)
next
  assume "checksum p = ComputeChecksum p" and "v \<noteq> seqnum p"
  then show ne: "checksum (p\<lparr>seqnum := v\<rparr>) \<noteq> ComputeChecksum (p\<lparr>seqnum := v\<rparr>)"
    by (simp add: ComputeChecksum_sum)
  then show "IsCorrupted (p\<lparr>seqnum := v\<rparr>) = 0" by (simp add: IsCorrupted_def)
next
  assume "checksum p = ComputeChecksum p" and "w \<noteq> acknum p"
  then show ne: "checksum (p\<lparr>acknum := w\<rparr>) \<noteq> ComputeChecksum (p\<lparr>acknum := w\<rparr>)"
    by (simp add: ComputeChecksum_sum)
  then show "IsCorrupted (p\<lparr>acknum := w\<rparr>) = 0" by (simp add: IsCorrupted_def)
next
  assume "checksum p = ComputeChecksum p" and "i < 20" and "i < length (payload p)"
    and "c \<noteq> payload p ! i"
  then show ne: "checksum (p\<lparr>payload := (payload p)[i := c]\<rparr>) \<noteq>
      ComputeChecksum (p\<lparr>payload := (payload p)[i := c]\<rparr>)"
    by (simp add: ComputeChecksum_sum sum_list_take_update)
  then show "IsCorrupted (p\<lparr>payload := (payload p)[i := c]\<rparr>) = 0"
    by (simp add: IsCorrupted_def)
qed

theorem checksum_detects_single_change_witness:
  "A_output init_state msg_a = Inr (one_outstanding, [tolayer3 A data_pkt, starttimer A RTT]) \<and>
   tolayer3 A data_pkt \<in> set [tolayer3 A data_pkt, starttimer A RTT] \<and>
   IsCorrupted data_pkt = - 1 \<and>
   events_of (B_input init_state corrupted_data_pkt) =
     Some [tolayer5 B (payload corrupted_data_pkt), tolayer3 B (ack_pkt 0),
           tolayer5 B (payload corrupted_data_pkt)] \<and>
   IsCorrupted (ack_pkt 0) = - 1 \<and>
   checksum data_pkt = ComputeChecksum data_pkt \<and>
   1 \<noteq> seqnum data_pkt \<and> IsCorrupted (data_pkt\<lparr>seqnum := 1\<rparr>) = 0 \<and>
   0 \<noteq> acknum data_pkt \<and> IsCorrupted (data_pkt\<lparr>acknum := 0\<rparr>) = 0 \<and>
   (0::nat) < 20 \<and> 0 < length (payload data_pkt) \<and> 90 \<noteq> payload data_pkt ! 0 \<and>
   IsCorrupted (data_pkt\<lparr>payload := (payload data_pkt)[0 := 90]\<rparr>) = 0"
proof -
  have b: "events_of (B_input init_state corrupted_data_pkt) =
     Some [tolayer5 B (payload corrupted_data_pkt), tolayer3 B (ack_pkt 0),
           tolayer5 B (payload corrupted_data_pkt)]"
    by code_simp
  have m: "tolayer3 B (ack_pkt 0) \<in> set [tolayer5 B (payload corrupted_data_pkt),
      tolayer3 B (ack_pkt 0), tolayer5 B (payload corrupted_data_pkt)]"
    by simp
  have k: "checksum data_pkt = ComputeChecksum data_pkt"
    unfolding data_pkt_def by (rule make_pkt_checksum)
  have h: "1 \<noteq> seqnum data_pkt" "0 \<noteq> acknum data_pkt" "0 < length (payload data_pkt)"
    "90 \<noteq> payload data_pkt ! 0"
    by (simp_all add: data_pkt_def make_pkt_def NOTINUSE_def)
  from checksum_detects_single_change [of data_pkt init_state msg_a one_outstanding
      "[tolayer3 A data_pkt, starttimer A RTT]" A data_pkt init_state corrupted_data_pkt
      "[tolayer5 B (payload corrupted_data_pkt), tolayer3 B (ack_pkt 0),
        tolayer5 B (payload corrupted_data_pkt)]" B "ack_pkt 0" 1 0 0 90]
    first_send b m k h
  show ?thesis by simp
qed

subsection \<open>Where sr.c departs from the protocol\<close>

text \<open>
  C1 does not hold of \<^verbatim>\<open>B_input\<close>. Its test \<^verbatim>\<open>!IsCorrupted(packet)\<close> is true
  exactly when the checksum does not match, so the packet \<open>data_pkt\<close>, which
  arrives as it was sent, is never handed to layer 5; and a packet that passes the test
  is handed to layer 5 twice by one call, once before the acknowledgement is built and
  once after the packet is stored.
\<close>

theorem B_input_delivers_twice:
  "map_option delivered (events_of (B_input init_state corrupted_data_pkt)) =
     Some [payload corrupted_data_pkt, payload corrupted_data_pkt] \<and>
   map_option delivered (events_of (run init_state [Call_B_input data_pkt, Call_B_input data_pkt])) =
     Some []"
  by code_simp

text \<open>
  C2 does not hold of \<^verbatim>\<open>A_input\<close> and \<^verbatim>\<open>B_input\<close>. An acknowledgement whose
  checksum does not match is counted, recorded in its slot and slides the window;
  a data packet whose checksum does not match is counted and acknowledged.
\<close>

theorem corrupted_packets_are_processed:
  "checksum (corrupted_ack_pkt 0) \<noteq> ComputeChecksum (corrupted_ack_pkt 0) \<and>
   map_option total_ACKs_received (state_of (A_input one_outstanding (corrupted_ack_pkt 0))) =
     Some (total_ACKs_received one_outstanding + 1) \<and>
   map_option windowcount (state_of (A_input one_outstanding (corrupted_ack_pkt 0))) = Some 0 \<and>
   map_option windowfirst (state_of (A_input one_outstanding (corrupted_ack_pkt 0))) = Some 6 \<and>
   checksum corrupted_data_pkt \<noteq> ComputeChecksum corrupted_data_pkt \<and>
   map_option sent (events_of (B_input init_state corrupted_data_pkt)) = Some [ack_pkt 0] \<and>
   map_option packets_received (state_of (B_input init_state corrupted_data_pkt)) = Some 1"
  by code_simp

text \<open>
  C3 does not hold of \<^verbatim>\<open>B_input\<close>. A data packet with a matching checksum gets
  no acknowledgement, in order (\<open>data_pkt\<close>) or not (sequence number 1 while 0 is
  expected); and a packet that passes the test of \<^verbatim>\<open>B_input\<close> on the checksum but is
  out of order gets none either, since the acknowledgement is built only when
  \<^verbatim>\<open>packet.seqnum == expectedseqnum\<close>.
\<close>

theorem valid_packet_not_acknowledged:
  "checksum data_pkt = ComputeChecksum data_pkt \<and>
   seqnum data_pkt = expectedseqnum init_state \<and>
   map_option sent (events_of (B_input init_state data_pkt)) = Some [] \<and>
   map_option sent (events_of (B_input init_state (make_pkt 1 NOTINUSE (replicate 20 98)))) =
     Some [] \<and>
   map_option sent (events_of (B_input init_state
      ((make_pkt 1 NOTINUSE (replicate 20 98))\<lparr>payload := 90 # replicate 19 98\<rparr>))) = Some []"
  by code_simp

text \<open>
  C4 does not hold of \<^verbatim>\<open>A_input\<close>. With sequence numbers 0, 1 and 2 sent from
  the initial state, the acknowledgements for 1 and 2 leave the window base at 0, but
  the acknowledgement for 0 then moves it to 6, not to 3: \<^verbatim>\<open>A_init\<close> does not set
  the \<^verbatim>\<open>acknum\<close> of the slots to \<^verbatim>\<open>NOTINUSE\<close>, so the scan counts the three
  slots that were never used as acknowledged. And when the window wraps, a slide can
  happen without the base: with the base at 6 and slot 0 not acknowledged, the
  acknowledgement for sequence number 0, the successor of the base, is given index
  \<^verbatim>\<open>WINDOWSIZE - (seqfirst - acknum)\<close>, which is 0, and the window slides.
\<close>

theorem window_slides_past_unacknowledged:
  "map_option windowfirst (state_of (run init_state
      [Call_A_output msg_a, Call_A_output msg_b, Call_A_output msg_a,
       Call_A_input (corrupted_ack_pkt 1), Call_A_input (corrupted_ack_pkt 2)])) = Some 0 \<and>
   map_option windowfirst (state_of (run init_state
      [Call_A_output msg_a, Call_A_output msg_b, Call_A_output msg_a,
       Call_A_input (corrupted_ack_pkt 1), Call_A_input (corrupted_ack_pkt 2),
       Call_A_input (corrupted_ack_pkt 0)])) = Some 6 \<and>
   (0 + 3) smod SEQSPACE = 3 \<and>
   map_option windowfirst (state_of (run init_state
      [Call_A_output msg_a, Call_A_input (corrupted_ack_pkt 0), Call_A_output msg_b])) = Some 6 \<and>
   map_option base_acked (state_of (run init_state
      [Call_A_output msg_a, Call_A_input (corrupted_ack_pkt 0), Call_A_output msg_b])) =
     Some False \<and>
   acknum (corrupted_ack_pkt 0) = (6 + 1) smod SEQSPACE \<and>
   map_option windowfirst (state_of (run init_state
      [Call_A_output msg_a, Call_A_input (corrupted_ack_pkt 0), Call_A_output msg_b,
       Call_A_input (corrupted_ack_pkt 0)])) = Some 0"
  by code_simp

text \<open>
  C8 does not hold of the constants of \<^verbatim>\<open>sr.c\<close>: the sequence space is the window
  size plus one, less than twice the window size, and \<^verbatim>\<open>A_init\<close> sets its four
  variables without looking at either constant.
\<close>

theorem sequence_space_too_small:
  "SEQSPACE = WINDOWSIZE + 1 \<and> \<not> 2 * WINDOWSIZE \<le> SEQSPACE \<and>
   A_init s = s\<lparr>A_nextseqnum := 0, windowfirst := 0, windowlast := - 1, windowcount := 0\<rparr>"
  by (simp add: SEQSPACE_def WINDOWSIZE_def A_init_def)

end
